theory Spec2Isabelle
  imports Complex_Main
begin

section \<open>Effect settings and the preset catalog\<close>

text \<open>
  \<^verbatim>\<open>type EffectSettings\<close> of \<^verbatim>\<open>src/app/page.tsx\<close>: nine numeric fields. JavaScript
  numbers are modelled as reals (no rounding, no NaN, no infinities).
\<close>

record EffectSettings =
  pitchSemitones :: real
  reverbWet :: real
  distortion :: real
  delayTime :: real
  delayFeedback :: real
  eqLow :: real
  eqMid :: real
  eqHigh :: real
  ringModHz :: real

text \<open>\<^verbatim>\<open>type PresetId\<close>: the closed union of the seven catalog keys.\<close>

datatype PresetId = clean | deep | chipmunk | robot | radio | alien | echo

text \<open>\<^verbatim>\<open>const PRESETS: Record<PresetId, EffectSettings>\<close>, entry by entry.\<close>

fun PRESETS :: "PresetId \<Rightarrow> EffectSettings" where
  "PRESETS clean =
     \<lparr>pitchSemitones = 0, reverbWet = 0.05, distortion = 0.0, delayTime = 0.0,
      delayFeedback = 0.0, eqLow = 0, eqMid = 0, eqHigh = 0, ringModHz = 0\<rparr>"
| "PRESETS deep =
     \<lparr>pitchSemitones = -6, reverbWet = 0.1, distortion = 0.05, delayTime = 0.0,
      delayFeedback = 0.0, eqLow = 3, eqMid = -2, eqHigh = -1, ringModHz = 0\<rparr>"
| "PRESETS chipmunk =
     \<lparr>pitchSemitones = 7, reverbWet = 0.12, distortion = 0.0, delayTime = 0.12,
      delayFeedback = 0.25, eqLow = -2, eqMid = 0, eqHigh = 2, ringModHz = 0\<rparr>"
| "PRESETS robot =
     \<lparr>pitchSemitones = 0, reverbWet = 0.08, distortion = 0.35, delayTime = 0,
      delayFeedback = 0, eqLow = 0, eqMid = 3, eqHigh = -2, ringModHz = 90\<rparr>"
| "PRESETS radio =
     \<lparr>pitchSemitones = -1, reverbWet = 0.03, distortion = 0.15, delayTime = 0,
      delayFeedback = 0, eqLow = -6, eqMid = 4, eqHigh = -4, ringModHz = 0\<rparr>"
| "PRESETS alien =
     \<lparr>pitchSemitones = -12, reverbWet = 0.18, distortion = 0.22, delayTime = 0.18,
      delayFeedback = 0.3, eqLow = 2, eqMid = -4, eqHigh = 3, ringModHz = 30\<rparr>"
| "PRESETS echo =
     \<lparr>pitchSemitones = 0, reverbWet = 0.2, distortion = 0.0, delayTime = 0.28,
      delayFeedback = 0.45, eqLow = 0, eqMid = 0, eqHigh = 1, ringModHz = 0\<rparr>"

section \<open>The audio world: nodes, connections, refs\<close>

text \<open>
  The page talks to the audio library only through constructors, \<^verbatim>\<open>connect\<close>,
  \<^verbatim>\<open>disconnect\<close>, \<^verbatim>\<open>set\<close>, \<^verbatim>\<open>start\<close>, \<^verbatim>\<open>stop\<close>, \<^verbatim>\<open>open\<close>,
  \<^verbatim>\<open>close\<close> and \<^verbatim>\<open>dispose\<close>. The library objects live in a store: a node's address
  is its index in \<open>nodes\<close>, a \<^verbatim>\<open>useRef\<close> cell holds an address or \<^verbatim>\<open>null\<close>. A node
  records, for each option, the value the page last handed to the library for it (in a
  constructor, in \<^verbatim>\<open>set\<close> or in an assignment to \<^verbatim>\<open>.value\<close>), whether it is running (an
  oscillator or player started, a microphone input open) and whether it was disposed.
  What a getter of the library returns for an option is not modelled: the library keeps
  some values in other units and in its own number format, so it need not return the
  number that was handed over. Nor are values outside the ranges of the settings' sliders
  and presets, which the library may refuse.
\<close>

datatype node_kind =
  PitchShift | Distortion | FeedbackDelay | Reverb | EQ3 | Gain | Analyser | AMOscillator
  | UserMedia | Player | Destination | MediaStreamDestination

datatype option_key =
  K_pitch | K_distortion | K_oversample | K_delayTime | K_feedback | K_decay | K_wet
  | K_low | K_mid | K_high | K_gain | K_analysis | K_size | K_frequency | K_type
  | K_harmonicity | K_url | K_autostart | K_loop | K_echoCancellation | K_noiseSuppression

datatype option_value = Num real | Str string | Flag bool

datatype playback = Started | Stopped

record node =
  kind :: node_kind
  opts :: "option_key \<rightharpoonup> option_value"
  state :: playback
  disposed :: bool

text \<open>The library calls the page issues, in program order.\<close>

datatype call =
  New nat | Connect nat nat | Disconnect nat | Start nat | Stop nat | Open nat | Close nat
  | Dispose nat

record page =
  nodes :: "node list"
  edges :: "(nat \<times> nat) list"
  calls :: "call list"
  inputNodeRef :: "nat option"
  filePlayerRef :: "nat option"
  pitchShiftRef :: "nat option"
  ringModRef :: "nat option"
  ringGainRef :: "nat option"
  distortionRef :: "nat option"
  delayRef :: "nat option"
  reverbRef :: "nat option"
  eqRef :: "nat option"
  analyserRef :: "nat option"
  finalGainRef :: "nat option"
  mediaDestRef :: "nat option"
  isMicLive :: bool
  isPlayingFile :: bool
  isRecording :: bool
  preset :: PresetId
  settings :: EffectSettings

subsection \<open>Library primitives\<close>

definition fresh_node :: "node_kind \<Rightarrow> (option_key \<times> option_value) list \<Rightarrow> node" where
  "fresh_node k kvs = \<lparr>kind = k, opts = map_of kvs, state = Stopped, disposed = False\<rparr>"

text \<open>\<^verbatim>\<open>new Tone.X(options)\<close>: the new object gets the next free address.\<close>

definition new_node :: "node_kind \<Rightarrow> (option_key \<times> option_value) list \<Rightarrow> page \<Rightarrow> nat \<times> page" where
  "new_node k kvs w =
     (length (nodes w),
      w\<lparr>nodes := nodes w @ [fresh_node k kvs], calls := calls w @ [New (length (nodes w))]\<rparr>)"

definition upd_node :: "nat \<Rightarrow> (node \<Rightarrow> node) \<Rightarrow> page \<Rightarrow> page" where
  "upd_node a f w = w\<lparr>nodes := (nodes w)[a := f (nodes w ! a)]\<rparr>"

text \<open>\<^verbatim>\<open>a.connect(b)\<close> adds one edge; \<^verbatim>\<open>a.disconnect()\<close> removes every edge leaving \<open>a\<close>.\<close>

definition connect :: "nat \<Rightarrow> nat \<Rightarrow> page \<Rightarrow> page" where
  "connect a b w = w\<lparr>edges := edges w @ [(a, b)], calls := calls w @ [Connect a b]\<rparr>"

definition disconnect :: "nat \<Rightarrow> page \<Rightarrow> page" where
  "disconnect a w =
     w\<lparr>edges := filter (\<lambda>e. fst e \<noteq> a) (edges w), calls := calls w @ [Disconnect a]\<rparr>"

text \<open>
  \<^verbatim>\<open>a.set({k: v, ...})\<close> and \<^verbatim>\<open>a.k.value = v\<close> hand the values to node \<open>a\<close>, which
  records them; later keys override earlier ones.
\<close>

definition set_opts :: "nat \<Rightarrow> (option_key \<times> option_value) list \<Rightarrow> page \<Rightarrow> page" where
  "set_opts a kvs w = upd_node a (\<lambda>n. n\<lparr>opts := opts n ++ map_of kvs\<rparr>) w"

definition start :: "nat \<Rightarrow> page \<Rightarrow> page" where
  "start a w = (upd_node a (\<lambda>n. n\<lparr>state := Started\<rparr>) w)\<lparr>calls := calls w @ [Start a]\<rparr>"

definition stop :: "nat \<Rightarrow> page \<Rightarrow> page" where
  "stop a w = (upd_node a (\<lambda>n. n\<lparr>state := Stopped\<rparr>) w)\<lparr>calls := calls w @ [Stop a]\<rparr>"

text \<open>Reading \<^verbatim>\<open>a.state\<close>.\<close>

definition state_of :: "nat \<Rightarrow> page \<Rightarrow> playback" where
  "state_of a w = state (nodes w ! a)"

text \<open>Optional chaining \<^verbatim>\<open>ref.current?.m(...)\<close>: nothing happens on \<^verbatim>\<open>null\<close>.\<close>

definition on_ref :: "nat option \<Rightarrow> (nat \<Rightarrow> page \<Rightarrow> page) \<Rightarrow> page \<Rightarrow> page" where
  "on_ref r f w = (case r of None \<Rightarrow> w | Some a \<Rightarrow> f a w)"

section \<open>applySettings: the effect on \<^verbatim>\<open>[settings]\<close>\<close>

text \<open>
  The body of \<^verbatim>\<open>useEffect(() => {...}, [settings])\<close>, with the settings value it reads
  as a parameter: first the five \<^verbatim>\<open>ref.current?.set({...})\<close> statements, then the
  ring-modulation block. The oscillator's \<^verbatim>\<open>state\<close> is one of the strings
  \<^verbatim>\<open>"started"\<close> and \<^verbatim>\<open>"stopped"\<close>, so \<^verbatim>\<open>!state || state === "stopped"\<close> holds
  exactly when it is stopped.
\<close>

definition set_stage_params :: "EffectSettings \<Rightarrow> page \<Rightarrow> page" where
  "set_stage_params s w0 =
     (let w1 = on_ref (pitchShiftRef w0) (\<lambda>a. set_opts a [(K_pitch, Num (pitchSemitones s))]) w0;
          w2 = on_ref (distortionRef w1) (\<lambda>a. set_opts a [(K_distortion, Num (distortion s))]) w1;
          w3 = on_ref (delayRef w2)
                 (\<lambda>a. set_opts a [(K_delayTime, Num (delayTime s)),
                                   (K_feedback, Num (delayFeedback s))]) w2;
          w4 = on_ref (reverbRef w3) (\<lambda>a. set_opts a [(K_wet, Num (reverbWet s))]) w3
      in on_ref (eqRef w4)
           (\<lambda>a. set_opts a [(K_low, Num (eqLow s)), (K_mid, Num (eqMid s)),
                             (K_high, Num (eqHigh s))]) w4)"

definition ring_block :: "EffectSettings \<Rightarrow> page \<Rightarrow> page" where
  "ring_block s w =
     (case ringModRef w of
        None \<Rightarrow> w
      | Some osc \<Rightarrow>
          (case ringGainRef w of
             None \<Rightarrow> w
           | Some g \<Rightarrow>
               (let w1 = set_opts osc [(K_frequency, Num (max 0.0001 (ringModHz s)))] w
                in if ringModHz s > 0 then
                     (let w2 = (if state_of osc w1 = Stopped then start osc w1 else w1)
                      in set_opts g [(K_gain, Num 0.5)] w2)
                   else
                     (let w2 = set_opts g [(K_gain, Num 0.0)] w1
                      in if state_of osc w2 = Started then stop osc w2 else w2))))"

definition applySettings :: "EffectSettings \<Rightarrow> page \<Rightarrow> page" where
  "applySettings s w = ring_block s (set_stage_params s w)"

text \<open>The effect as React runs it: on the current \<open>settings\<close> of the page.\<close>

definition settings_effect :: "page \<Rightarrow> page" where
  "settings_effect w = applySettings (settings w) w"

section \<open>buildGraph\<close>

text \<open>
  A handler or an effect either runs to its end or is cut short by an exception; the mutations made
  before the exception stay.
\<close>

datatype run = Done page | Threw page

fun page_of :: "run \<Rightarrow> page" where
  "page_of (Done w) = w"
| "page_of (Threw w) = w"

text \<open>
  \<^verbatim>\<open>Tone.Destination\<close> is the library's output singleton; it exists before the page
  runs, at a fixed address. It has no field \<^verbatim>\<open>_destination\<close> (the library keeps a field
  of that name on its context object, not on the destination), so the read
  \<^verbatim>\<open>Tone.Destination._destination\<close> yields \<^verbatim>\<open>undefined\<close>, here \<open>None\<close>.
\<close>

definition Tone_Destination :: nat where
  "Tone_Destination = 0"

definition Tone_Destination_internal :: "nat option" where
  "Tone_Destination_internal = None"

text \<open>The page after the first render: no node built, every ref \<^verbatim>\<open>null\<close>, preset clean.\<close>

definition initial_page :: page where
  "initial_page =
     \<lparr>nodes = [fresh_node Destination []],
      edges = [], calls = [],
      inputNodeRef = None, filePlayerRef = None, pitchShiftRef = None, ringModRef = None,
      ringGainRef = None, distortionRef = None, delayRef = None, reverbRef = None,
      eqRef = None, analyserRef = None, finalGainRef = None, mediaDestRef = None,
      isMicLive = False, isPlayingFile = False, isRecording = False,
      preset = clean, settings = PRESETS clean\<rparr>"

text \<open>\<^verbatim>\<open>node.toDestination()\<close> connects the node to \<^verbatim>\<open>Tone.Destination\<close>.\<close>

definition toDestination :: "nat \<Rightarrow> page \<Rightarrow> page" where
  "toDestination a w = connect a Tone_Destination w"

text \<open>
  \<^verbatim>\<open>buildGraph\<close>, statement by statement; \<open>s\<close> is the \<^verbatim>\<open>settings\<close> value the closure of
  the mount effect captured. \<^verbatim>\<open>settings.ringModHz || 1\<close> is 1 when the field is 0. The
  last statement, \<^verbatim>\<open>destinationNode.connect(dest)\<close>, raises a TypeError when
  \<^verbatim>\<open>destinationNode\<close> is \<^verbatim>\<open>undefined\<close>.
\<close>

definition buildGraph :: "EffectSettings \<Rightarrow> page \<Rightarrow> run" where
  "buildGraph s w0 =
     (let (pitch, w1) = new_node PitchShift [(K_pitch, Num (pitchSemitones s))] w0;
          w2 = toDestination pitch w1;
          (dist, w3) = new_node Distortion
                         [(K_distortion, Num (distortion s)), (K_oversample, Str ''4x'')] w2;
          (delay, w4) = new_node FeedbackDelay
                          [(K_delayTime, Num (delayTime s)), (K_feedback, Num (delayFeedback s))] w3;
          (reverb, w5) = new_node Reverb [(K_decay, Num 2.4), (K_wet, Num (reverbWet s))] w4;
          (eq, w6) = new_node EQ3
                       [(K_low, Num (eqLow s)), (K_mid, Num (eqMid s)), (K_high, Num (eqHigh s))] w5;
          (finalGain, w7) = new_node Gain [(K_gain, Num 0.9)] w6;
          (analyser, w8) = new_node Analyser [(K_analysis, Str ''fft''), (K_size, Num 64)] w7;
          (ringOsc, w9) = new_node AMOscillator
                            [(K_frequency, Num (if ringModHz s = 0 then 1 else ringModHz s)),
                             (K_type, Str ''sine''), (K_harmonicity, Num 1.0)] w8;
          (ringGain, w10) = new_node Gain
                              [(K_gain, Num (if ringModHz s > 0 then 0.5 else 0))] w9;
          w11 = connect ringOsc ringGain w10;
          w12 = connect pitch dist w11;
          w13 = connect ringGain dist w12;
          w14 = connect dist delay w13;
          w15 = connect delay reverb w14;
          w16 = connect reverb eq w15;
          w17 = connect eq finalGain w16;
          w18 = connect finalGain analyser w17;
          w19 = connect finalGain Tone_Destination w18;
          w20 = w19\<lparr>pitchShiftRef := Some pitch, ringModRef := Some ringOsc,
                     ringGainRef := Some ringGain, distortionRef := Some dist,
                     delayRef := Some delay, reverbRef := Some reverb, eqRef := Some eq,
                     analyserRef := Some analyser, finalGainRef := Some finalGain\<rparr>;
          (dest, w21) = new_node MediaStreamDestination [] w20;
          w22 = w21\<lparr>mediaDestRef := Some dest\<rparr>
      in case Tone_Destination_internal of
           None \<Rightarrow> Threw w22
         | Some destinationNode \<Rightarrow> Done (connect destinationNode dest w22))"

text \<open>
  The mount effect runs once, with the closure of the first render, where
  \<^verbatim>\<open>settings\<close> is \<^verbatim>\<open>PRESETS.clean\<close>; nothing awaits or catches the promise of
  \<^verbatim>\<open>buildGraph\<close>, so the page goes on with what was built.
\<close>

definition mount :: "page \<Rightarrow> page" where
  "mount w = page_of (buildGraph (PRESETS clean) w)"

text \<open>What leaves and what enters a node, in connection order.\<close>

definition outputs_of :: "nat \<Rightarrow> page \<Rightarrow> nat list" where
  "outputs_of a w = map snd (filter (\<lambda>e. fst e = a) (edges w))"

definition inputs_of :: "nat \<Rightarrow> page \<Rightarrow> nat list" where
  "inputs_of b w = map fst (filter (\<lambda>e. snd e = b) (edges w))"

section \<open>teardown: the cleanup of the mount effect\<close>

text \<open>
  \<^verbatim>\<open>a.dispose()\<close>: the node is marked disposed, no longer runs (a disposed microphone
  input has released its stream) and loses its outgoing connections.
\<close>

definition dispose :: "nat \<Rightarrow> page \<Rightarrow> page" where
  "dispose a w =
     (upd_node a (\<lambda>n. n\<lparr>state := Stopped, disposed := True\<rparr>) w)
       \<lparr>edges := filter (\<lambda>e. fst e \<noteq> a) (edges w), calls := calls w @ [Dispose a]\<rparr>"




section \<open>Sources: microphone and file player\<close>

text \<open>
  Each handler first awaits \<^verbatim>\<open>startTone()\<close>, which resumes the audio context and touches
  neither nodes nor refs.
  \<^verbatim>\<open>mic.open()\<close> succeeds when the user grants access (then the stream is live) and
  rejects otherwise; \<^verbatim>\<open>mic.close()\<close> releases the stream.
\<close>

definition open_mic :: "nat \<Rightarrow> page \<Rightarrow> page" where
  "open_mic a w = (upd_node a (\<lambda>n. n\<lparr>state := Started\<rparr>) w)\<lparr>calls := calls w @ [Open a]\<rparr>"

definition close_mic :: "nat \<Rightarrow> page \<Rightarrow> page" where
  "close_mic a w = (upd_node a (\<lambda>n. n\<lparr>state := Stopped\<rparr>) w)\<lparr>calls := calls w @ [Close a]\<rparr>"

text \<open>
  \<^verbatim>\<open>x.connect(pitchShiftRef.current!)\<close>: the non-null assertion is erased at run time
  and connecting to \<^verbatim>\<open>null\<close> raises.
\<close>

definition connect_entry :: "nat \<Rightarrow> page \<Rightarrow> run" where
  "connect_entry a w =
     (case pitchShiftRef w of None \<Rightarrow> Threw w | Some entry \<Rightarrow> Done (connect a entry w))"

definition handleMicToggle :: "bool \<Rightarrow> page \<Rightarrow> run" where
  "handleMicToggle granted w0 =
     (if \<not> isMicLive w0 then
        (let (mic, w1) = new_node UserMedia
                           [(K_echoCancellation, Flag False), (K_noiseSuppression, Flag False)] w0
         in if \<not> granted then Threw (w1\<lparr>calls := calls w1 @ [Open mic]\<rparr>)
            else (case connect_entry mic (open_mic mic w1) of
                    Threw w2 \<Rightarrow> Threw w2
                  | Done w2 \<Rightarrow> Done (w2\<lparr>inputNodeRef := Some mic, isMicLive := True\<rparr>)))
      else
        (let w1 = on_ref (inputNodeRef w0) disconnect w0;
             w2 = on_ref (inputNodeRef w1) close_mic w1
         in Done (w2\<lparr>inputNodeRef := None, isMicLive := False\<rparr>)))"

text \<open>\<^verbatim>\<open>handleFileSelect\<close>; \<open>url\<close> is the object URL made for the chosen file.\<close>

definition handleFileSelect :: "string \<Rightarrow> page \<Rightarrow> run" where
  "handleFileSelect url w0 =
     (let w1 = (case filePlayerRef w0 of
                  None \<Rightarrow> w0
                | Some old \<Rightarrow> dispose old (disconnect old (stop old w0)));
          (player, w2) = new_node Player
                           [(K_url, Str url), (K_autostart, Flag False), (K_loop, Flag False)] w1
      in case connect_entry player w2 of
           Threw w3 \<Rightarrow> Threw w3
         | Done w3 \<Rightarrow> Done (w3\<lparr>filePlayerRef := Some player\<rparr>))"

text \<open>
  \<^verbatim>\<open>handlePlayPause\<close>; \<open>loaded\<close> says whether the player has decoded its file, without
  which \<^verbatim>\<open>start\<close> raises.
\<close>

definition handlePlayPause :: "bool \<Rightarrow> page \<Rightarrow> run" where
  "handlePlayPause loaded w =
     (case filePlayerRef w of
        None \<Rightarrow> Done w
      | Some p \<Rightarrow>
          if isPlayingFile w then Done ((stop p w)\<lparr>isPlayingFile := False\<rparr>)
          else if \<not> loaded then Threw (w\<lparr>calls := calls w @ [Start p]\<rparr>)
          else Done ((start p w)\<lparr>isPlayingFile := True\<rparr>))"

section \<open>Presets and single-field updates\<close>

definition applyPreset :: "PresetId \<Rightarrow> page \<Rightarrow> page" where
  "applyPreset pid w = w\<lparr>preset := pid, settings := PRESETS pid\<rparr>"

text \<open>
  A click on a preset button, with the render that follows. React compares the old and the
  new \<^verbatim>\<open>settings\<close> state by identity and runs the settings effect only when they are
  different objects. \<open>held\<close> tells which object the state holds before the click:
  \<open>Some p\<close> when it is the catalog's object \<^verbatim>\<open>PRESETS[p]\<close> (as after
  \<^verbatim>\<open>useState(PRESETS.clean)\<close> or after a click on \<open>p\<close>), \<open>None\<close> when it is an object made
  by a single-field update.
\<close>

definition preset_click :: "PresetId option \<Rightarrow> PresetId \<Rightarrow> page \<Rightarrow> page" where
  "preset_click held pid w =
     (let w' = applyPreset pid w
      in if held = Some pid then w' else settings_effect w')"

text \<open>\<^verbatim>\<open>keyof EffectSettings\<close>.\<close>

datatype setting_key =
  Key_pitchSemitones | Key_reverbWet | Key_distortion | Key_delayTime | Key_delayFeedback
  | Key_eqLow | Key_eqMid | Key_eqHigh | Key_ringModHz

text \<open>\<^verbatim>\<open>s[key]\<close> and the updater \<^verbatim>\<open>(s) => ({ ...s, [key]: v })\<close>.\<close>

fun field :: "setting_key \<Rightarrow> EffectSettings \<Rightarrow> real" where
  "field Key_pitchSemitones s = pitchSemitones s"
| "field Key_reverbWet s = reverbWet s"
| "field Key_distortion s = distortion s"
| "field Key_delayTime s = delayTime s"
| "field Key_delayFeedback s = delayFeedback s"
| "field Key_eqLow s = eqLow s"
| "field Key_eqMid s = eqMid s"
| "field Key_eqHigh s = eqHigh s"
| "field Key_ringModHz s = ringModHz s"

fun merge_field :: "setting_key \<Rightarrow> real \<Rightarrow> EffectSettings \<Rightarrow> EffectSettings" where
  "merge_field Key_pitchSemitones v s = s\<lparr>pitchSemitones := v\<rparr>"
| "merge_field Key_reverbWet v s = s\<lparr>reverbWet := v\<rparr>"
| "merge_field Key_distortion v s = s\<lparr>distortion := v\<rparr>"
| "merge_field Key_delayTime v s = s\<lparr>delayTime := v\<rparr>"
| "merge_field Key_delayFeedback v s = s\<lparr>delayFeedback := v\<rparr>"
| "merge_field Key_eqLow v s = s\<lparr>eqLow := v\<rparr>"
| "merge_field Key_eqMid v s = s\<lparr>eqMid := v\<rparr>"
| "merge_field Key_eqHigh v s = s\<lparr>eqHigh := v\<rparr>"
| "merge_field Key_ringModHz v s = s\<lparr>ringModHz := v\<rparr>"

definition setSetting :: "setting_key \<Rightarrow> real \<Rightarrow> page \<Rightarrow> page" where
  "setSetting key v w = w\<lparr>settings := merge_field key v (settings w)\<rparr>"

text \<open>
  At run time the types are erased: a preset id is the string of its literal and
  \<^verbatim>\<open>PRESETS[id]\<close> is a property lookup, \<^verbatim>\<open>undefined\<close> (here \<open>None\<close>) on a string
  that is no key of the object. \<open>applyPreset_untyped\<close> gives the two values
  \<^verbatim>\<open>applyPreset\<close> hands to \<^verbatim>\<open>setPreset\<close> and \<^verbatim>\<open>setSettings\<close> for an arbitrary string.
  \<open>PRESETS_at\<close> looks up the object's own keys. On the names every object inherits (such
  as \<^verbatim>\<open>constructor\<close>) the program's lookup finds the inherited member; these names are
  not modelled, and \<open>PRESETS_at\<close> is used on other strings only.
\<close>

fun preset_key :: "PresetId \<Rightarrow> string" where
  "preset_key clean = ''clean''"
| "preset_key deep = ''deep''"
| "preset_key chipmunk = ''chipmunk''"
| "preset_key robot = ''robot''"
| "preset_key radio = ''radio''"
| "preset_key alien = ''alien''"
| "preset_key echo = ''echo''"

definition catalog :: "PresetId list" where
  "catalog = [clean, deep, chipmunk, robot, radio, alien, echo]"

definition PRESETS_at :: "string \<Rightarrow> EffectSettings option" where
  "PRESETS_at k = map_of (map (\<lambda>p. (preset_key p, PRESETS p)) catalog) k"

definition applyPreset_untyped :: "string \<Rightarrow> string \<times> EffectSettings option" where
  "applyPreset_untyped k = (k, PRESETS_at k)"

section \<open>Events of the page\<close>

text \<open>
  The page changes its audio graph through calls of the handlers above and runs of the
  settings effect, which React schedules after a render that changed \<^verbatim>\<open>settings\<close>. An
  exception in a handler leaves the mutations made so far. Sequences of events are taken
  in any order, which covers every schedule. The recording handlers and the visualizer
  only read from the graph (the media-stream destination and the analyser) and are not
  among the events.
\<close>

datatype event =
  Ev_applyPreset PresetId | Ev_setSetting setting_key real | Ev_settingsEffect
  | Ev_micToggle bool | Ev_fileSelect string | Ev_playPause bool

fun perform :: "event \<Rightarrow> page \<Rightarrow> page" where
  "perform (Ev_applyPreset pid) w = applyPreset pid w"
| "perform (Ev_setSetting key v) w = setSetting key v w"
| "perform Ev_settingsEffect w = settings_effect w"
| "perform (Ev_micToggle granted) w = page_of (handleMicToggle granted w)"
| "perform (Ev_fileSelect url) w = page_of (handleFileSelect url w)"
| "perform (Ev_playPause loaded) w = page_of (handlePlayPause loaded w)"

section \<open>Saving a recording\<close>

text \<open>
  \<^verbatim>\<open>rec.onstop\<close>: \<open>stamp\<close> is what \<^verbatim>\<open>new Date().toISOString()\<close> returns and \<open>mime\<close> the
  container the recorder chose for the stream (\<^verbatim>\<open>rec.mimeType\<close>), which the handler
  never reads. \<^verbatim>\<open>replace(/[:.]/g, "-")\<close> rewrites every colon and dot.
\<close>

definition replace_colon_dot :: "string \<Rightarrow> string" where
  "replace_colon_dot t = map (\<lambda>c. if c = CHR '':'' \<or> c = CHR ''.'' then CHR ''-'' else c) t"

record download =
  blob_type :: string
  file_name :: string

definition onstop :: "string \<Rightarrow> string \<Rightarrow> download" where
  "onstop mime stamp =
     \<lparr>blob_type = ''audio/webm'',
      file_name = ''ultra-voice-'' @ replace_colon_dot stamp @ ''.webm''\<rparr>"

text \<open>
  The specification's wording, for comparison: the extension is that of the recorder's
  container, the subtype of its MIME type up to any parameter.
\<close>

definition spec_container_extension :: "string \<Rightarrow> string" where
  "spec_container_extension mime =
     takeWhile (\<lambda>c. c \<noteq> CHR '';'') (drop 1 (dropWhile (\<lambda>c. c \<noteq> CHR ''/'') mime))"

definition spec_file_name :: "string \<Rightarrow> string \<Rightarrow> string" where
  "spec_file_name mime stamp =
     ''ultra-voice-'' @ replace_colon_dot stamp @ ''.'' @ spec_container_extension mime"

section \<open>Auxiliary notions for the proofs\<close>

text \<open>
  The value recorded for an option of the node a ref points to (the value the page last
  handed over for it); nothing is recorded on \<^verbatim>\<open>null\<close>.
\<close>

definition read_opt :: "nat option \<Rightarrow> option_key \<Rightarrow> page \<Rightarrow> option_value option" where
  "read_opt r k w =
     (case r of None \<Rightarrow> None
      | Some a \<Rightarrow> if a < length (nodes w) then opts (nodes w ! a) k else None)"

text \<open>The graph is built: the seven refs the settings effect uses point to nodes.\<close>

definition graph_built :: "page \<Rightarrow> bool" where
  "graph_built w =
     list_all (\<lambda>r. case r of None \<Rightarrow> False | Some a \<Rightarrow> a < length (nodes w))
       [pitchShiftRef w, distortionRef w, delayRef w, reverbRef w, eqRef w, ringModRef w,
        ringGainRef w]"

text \<open>The node list after \<^verbatim>\<open>set\<close> through a ref, and after a change of playback state.\<close>

definition put_opts :: "nat option \<Rightarrow> (option_key \<times> option_value) list \<Rightarrow> node list \<Rightarrow> node list" where
  "put_opts r kvs ns =
     (case r of None \<Rightarrow> ns | Some a \<Rightarrow> ns[a := (ns ! a)\<lparr>opts := opts (ns ! a) ++ map_of kvs\<rparr>])"

definition put_state :: "nat \<Rightarrow> playback \<Rightarrow> node list \<Rightarrow> node list" where
  "put_state a p ns = ns[a := (ns ! a)\<lparr>state := p\<rparr>]"

text \<open>Calls that create, connect, disconnect or release a node.\<close>

definition topology_call :: "call \<Rightarrow> bool" where
  "topology_call c = (case c of Start a \<Rightarrow> False | Stop a \<Rightarrow> False | _ \<Rightarrow> True)"

text \<open>What \<open>buildGraph\<close> adds to a page whose store holds \<open>n\<close> nodes.\<close>

definition built_nodes :: "EffectSettings \<Rightarrow> node list" where
  "built_nodes s =
     [fresh_node PitchShift [(K_pitch, Num (pitchSemitones s))],
      fresh_node Distortion [(K_distortion, Num (distortion s)), (K_oversample, Str ''4x'')],
      fresh_node FeedbackDelay
        [(K_delayTime, Num (delayTime s)), (K_feedback, Num (delayFeedback s))],
      fresh_node Reverb [(K_decay, Num 2.4), (K_wet, Num (reverbWet s))],
      fresh_node EQ3 [(K_low, Num (eqLow s)), (K_mid, Num (eqMid s)), (K_high, Num (eqHigh s))],
      fresh_node Gain [(K_gain, Num 0.9)],
      fresh_node Analyser [(K_analysis, Str ''fft''), (K_size, Num 64)],
      fresh_node AMOscillator
        [(K_frequency, Num (if ringModHz s = 0 then 1 else ringModHz s)),
         (K_type, Str ''sine''), (K_harmonicity, Num 1.0)],
      fresh_node Gain [(K_gain, Num (if ringModHz s > 0 then 0.5 else 0))],
      fresh_node MediaStreamDestination []]"

definition built_edges :: "nat \<Rightarrow> (nat \<times> nat) list" where
  "built_edges n =
     [(n, Tone_Destination), (n + 7, n + 8), (n, n + 1), (n + 8, n + 1), (n + 1, n + 2),
      (n + 2, n + 3), (n + 3, n + 4), (n + 4, n + 5), (n + 5, n + 6),
      (n + 5, Tone_Destination)]"

definition built_calls :: "nat \<Rightarrow> call list" where
  "built_calls n =
     [New n, Connect n Tone_Destination, New (n + 1), New (n + 2), New (n + 3), New (n + 4),
      New (n + 5), New (n + 6), New (n + 7), New (n + 8), Connect (n + 7) (n + 8),
      Connect n (n + 1), Connect (n + 8) (n + 1), Connect (n + 1) (n + 2),
      Connect (n + 2) (n + 3), Connect (n + 3) (n + 4), Connect (n + 4) (n + 5),
      Connect (n + 5) (n + 6), Connect (n + 5) Tone_Destination, New (n + 9)]"


fun dispose_seq :: "(nat \<Rightarrow> bool) \<Rightarrow> nat list \<Rightarrow> page \<Rightarrow> run" where
  "dispose_seq throws [] w = Done w"
| "dispose_seq throws (a # as) w =
     (if throws a then Threw (w\<lparr>calls := calls w @ [Dispose a]\<rparr>)
      else dispose_seq throws as (dispose a w))"


text \<open>
  Invariants of the page: before the mount effect has run every ref used below is
  \<^verbatim>\<open>null\<close>; once it has run on a store of \<open>n\<close> nodes, the stage refs hold the addresses
  it allocated, the final gain is as built, and a microphone or file player lies beyond
  the graph's nodes.
\<close>

definition unbuilt :: "page \<Rightarrow> bool" where
  "unbuilt w \<longleftrightarrow>
     list_all (\<lambda>r. r = None)
       [inputNodeRef w, filePlayerRef w, pitchShiftRef w, ringModRef w, ringGainRef w,
        distortionRef w, delayRef w, reverbRef w, eqRef w, analyserRef w, finalGainRef w,
        mediaDestRef w]"

definition graph_intact :: "nat \<Rightarrow> page \<Rightarrow> bool" where
  "graph_intact n w \<longleftrightarrow>
     n + 10 \<le> length (nodes w) \<and> nodes w ! (n + 5) = fresh_node Gain [(K_gain, Num 0.9)]
   \<and> pitchShiftRef w = Some n \<and> distortionRef w = Some (n + 1) \<and> delayRef w = Some (n + 2)
   \<and> reverbRef w = Some (n + 3) \<and> eqRef w = Some (n + 4) \<and> finalGainRef w = Some (n + 5)
   \<and> ringModRef w = Some (n + 7) \<and> ringGainRef w = Some (n + 8)
   \<and> (case inputNodeRef w of None \<Rightarrow> True | Some a \<Rightarrow> n + 10 \<le> a)
   \<and> (case filePlayerRef w of None \<Rightarrow> True | Some a \<Rightarrow> n + 10 \<le> a)"


definition file_page :: page where
  "file_page = page_of (handleFileSelect ''blob:first'' (mount initial_page))"

section \<open>Lemmas on the node store\<close>

lemma map_update_same: "(map f ns)[a := f (ns ! a)] = map f ns"
  by (cases "a < length ns") (simp_all add: list_update_same_conv list_update_beyond not_less)

lemma nth_update_any: "ns[a := x] ! b = (if a = b \<and> a < length ns then x else ns ! b)"
  by (cases "a < length ns") (auto simp: nth_list_update list_update_beyond not_less)

lemma update_twice:
  "(ns[a := f (ns ! a)])[a := g (ns[a := f (ns ! a)] ! a)] = ns[a := g (f (ns ! a))]"
  by (cases "a < length ns") (simp_all add: list_update_beyond not_less)

lemma on_ref_set_opts:
  "on_ref r (\<lambda>a. set_opts a kvs) w = w\<lparr>nodes := put_opts r kvs (nodes w)\<rparr>"
  by (cases r) (simp_all add: on_ref_def set_opts_def upd_node_def put_opts_def)

lemma set_opts_put: "set_opts a kvs w = w\<lparr>nodes := put_opts (Some a) kvs (nodes w)\<rparr>"
  by (simp add: set_opts_def upd_node_def put_opts_def)

lemma start_put: "start a w = w\<lparr>nodes := put_state a Started (nodes w), calls := calls w @ [Start a]\<rparr>"
  by (simp add: start_def upd_node_def put_state_def)

lemma stop_put: "stop a w = w\<lparr>nodes := put_state a Stopped (nodes w), calls := calls w @ [Stop a]\<rparr>"
  by (simp add: stop_def upd_node_def put_state_def)

lemma length_put_opts [simp]: "length (put_opts r kvs ns) = length ns"
  by (simp add: put_opts_def split: option.splits)

lemma kind_put_opts [simp]: "map kind (put_opts r kvs ns) = map kind ns"
  by (cases r) (simp_all add: put_opts_def map_update map_update_same)

lemma disposed_put_opts [simp]: "map disposed (put_opts r kvs ns) = map disposed ns"
  by (cases r) (simp_all add: put_opts_def map_update map_update_same)

lemma state_put_opts [simp]: "map state (put_opts r kvs ns) = map state ns"
  by (cases r) (simp_all add: put_opts_def map_update map_update_same)

lemma state_nth_put_opts [simp]: "state (put_opts r kvs ns ! b) = state (ns ! b)"
  by (cases r) (simp_all add: put_opts_def nth_update_any)

lemma opts_put_opts_other:
  "k \<notin> fst ` set kvs \<Longrightarrow> opts (put_opts r kvs ns ! b) k = opts (ns ! b) k"
proof -
  assume "k \<notin> fst ` set kvs"
  then have "map_of kvs k = None"
    by (simp add: map_of_eq_None_iff)
  then show ?thesis
    by (cases r) (simp_all add: put_opts_def nth_update_any map_add_def)
qed

lemma opts_put_opts_same:
  "b < length ns \<Longrightarrow> map_of kvs k = Some v \<Longrightarrow> opts (put_opts (Some b) kvs ns ! b) k = Some v"
  by (simp add: put_opts_def map_add_def)

lemma put_opts_nth_other: "r \<noteq> Some b \<Longrightarrow> put_opts r kvs ns ! b = ns ! b"
  by (cases r) (simp_all add: put_opts_def)

lemma length_put_state [simp]: "length (put_state a p ns) = length ns"
  by (simp add: put_state_def)

lemma kind_put_state [simp]: "map kind (put_state a p ns) = map kind ns"
  by (simp add: put_state_def map_update map_update_same)

lemma disposed_put_state [simp]: "map disposed (put_state a p ns) = map disposed ns"
  by (simp add: put_state_def map_update map_update_same)

lemma state_put_state: "map state (put_state a p ns) = (map state ns)[a := p]"
  by (simp add: put_state_def map_update)

lemma opts_put_state [simp]: "opts (put_state a p ns ! b) = opts (ns ! b)"
  by (simp add: put_state_def nth_update_any)

lemma state_nth_put_state:
  "state (put_state a p ns ! b) = (if a = b \<and> a < length ns then p else state (ns ! b))"
  by (simp add: put_state_def nth_update_any)

lemma put_state_nth_other: "a \<noteq> b \<Longrightarrow> put_state a p ns ! b = ns ! b"
  by (simp add: put_state_def)

section \<open>What buildGraph builds\<close>

lemma buildGraph_shape:
  "buildGraph s w =
     Threw
      (w\<lparr>nodes := nodes w @ built_nodes s,
       edges := edges w @ built_edges (length (nodes w)),
       calls := calls w @ built_calls (length (nodes w)),
       pitchShiftRef := Some (length (nodes w)),
       ringModRef := Some (length (nodes w) + 7),
       ringGainRef := Some (length (nodes w) + 8),
       distortionRef := Some (length (nodes w) + 1),
       delayRef := Some (length (nodes w) + 2),
       reverbRef := Some (length (nodes w) + 3),
       eqRef := Some (length (nodes w) + 4),
       analyserRef := Some (length (nodes w) + 6),
       finalGainRef := Some (length (nodes w) + 5),
       mediaDestRef := Some (length (nodes w) + 9)\<rparr>)"
  by (simp add: buildGraph_def Let_def new_node_def connect_def toDestination_def
      Tone_Destination_internal_def built_nodes_def built_edges_def built_calls_def
      numeral_eq_Suc)

lemma mount_initial:
  "mount initial_page =
     initial_page
      \<lparr>nodes := nodes initial_page @ built_nodes (PRESETS clean),
       edges := built_edges 1, calls := built_calls 1,
       pitchShiftRef := Some 1, ringModRef := Some 8, ringGainRef := Some 9,
       distortionRef := Some 2, delayRef := Some 3, reverbRef := Some 4, eqRef := Some 5,
       analyserRef := Some 7, finalGainRef := Some 6, mediaDestRef := Some 10\<rparr>"
  by (simp add: mount_def buildGraph_shape) (simp add: initial_page_def)

lemma nodes_mount_initial:
  "nodes (mount initial_page) = [fresh_node Destination []] @ built_nodes (PRESETS clean)"
  by (simp add: mount_initial) (simp add: initial_page_def)

lemma mount_refs:
  "pitchShiftRef (mount initial_page) = Some 1" "distortionRef (mount initial_page) = Some 2"
  "delayRef (mount initial_page) = Some 3" "reverbRef (mount initial_page) = Some 4"
  "eqRef (mount initial_page) = Some 5" "finalGainRef (mount initial_page) = Some 6"
  "analyserRef (mount initial_page) = Some 7" "ringModRef (mount initial_page) = Some 8"
  "ringGainRef (mount initial_page) = Some 9" "mediaDestRef (mount initial_page) = Some 10"
  "inputNodeRef (mount initial_page) = None" "filePlayerRef (mount initial_page) = None"
  by (simp_all add: mount_initial) (simp_all add: initial_page_def)


lemma mount_length: "length (nodes (mount initial_page)) = 11"
  by (simp add: nodes_mount_initial built_nodes_def)

lemma mount_states: "map state (nodes (mount initial_page)) = replicate 11 Stopped"
  by (simp add: nodes_mount_initial built_nodes_def fresh_node_def numeral_eq_Suc)


lemma mount_built: "graph_built (mount initial_page)"
  by (simp add: graph_built_def mount_refs mount_length)

text \<open>
  Claim C1 at the mount of the page (the initial settings on the initial page): the code
  does not do what the claim says. The pitch shifter (node 1) is connected to the audible
  output as well as to the distortion stage (node 2); and \<open>buildGraph\<close> ends in an
  exception at its last statement, so that the media-stream destination (node 10) is
  created and held by its ref but nothing is connected to it: the final gain (node 6)
  feeds the analyser (node 7) and the audible output only. All other connections are the
  chain's.
\<close>

theorem buildGraph_at_mount:
  "buildGraph (PRESETS clean) initial_page = Threw (mount initial_page)
   \<and> pitchShiftRef (mount initial_page) = Some 1
   \<and> distortionRef (mount initial_page) = Some 2
   \<and> finalGainRef (mount initial_page) = Some 6
   \<and> analyserRef (mount initial_page) = Some 7
   \<and> mediaDestRef (mount initial_page) = Some 10
   \<and> outputs_of 1 (mount initial_page) = [Tone_Destination, 2]
   \<and> outputs_of 6 (mount initial_page) = [7, Tone_Destination]
   \<and> inputs_of 10 (mount initial_page) = []
   \<and> edges (mount initial_page)
       = [(1, Tone_Destination), (8, 9), (1, 2), (9, 2), (2, 3), (3, 4), (4, 5), (5, 6),
          (6, 7), (6, Tone_Destination)]"
proof -
  have "buildGraph (PRESETS clean) initial_page = Threw (mount initial_page)"
    by (simp add: mount_def buildGraph_shape)
  then show ?thesis
    by (simp add: mount_initial outputs_of_def inputs_of_def built_edges_def
        Tone_Destination_def)
qed

section \<open>The settings effect\<close>

lemma set_stage_params_shape:
  "set_stage_params s w =
     w\<lparr>nodes :=
         put_opts (eqRef w)
           [(K_low, Num (eqLow s)), (K_mid, Num (eqMid s)), (K_high, Num (eqHigh s))]
        (put_opts (reverbRef w) [(K_wet, Num (reverbWet s))]
        (put_opts (delayRef w)
           [(K_delayTime, Num (delayTime s)), (K_feedback, Num (delayFeedback s))]
        (put_opts (distortionRef w) [(K_distortion, Num (distortion s))]
        (put_opts (pitchShiftRef w) [(K_pitch, Num (pitchSemitones s))] (nodes w)))))\<rparr>"
  by (simp add: set_stage_params_def Let_def on_ref_set_opts)

lemma ring_block_absent:
  "ringModRef w = None \<or> ringGainRef w = None \<Longrightarrow> ring_block s w = w"
  by (auto simp: ring_block_def split: option.splits)

lemma ring_block_on:
  assumes "ringModRef w = Some osc" and "ringGainRef w = Some g" and "0 < ringModHz s"
  shows "ring_block s w =
    w\<lparr>nodes := put_opts (Some g) [(K_gain, Num 0.5)]
                 ((if state (nodes w ! osc) = Stopped then put_state osc Started else id)
                    (put_opts (Some osc) [(K_frequency, Num (max 0.0001 (ringModHz s)))] (nodes w))),
      calls := calls w @ (if state (nodes w ! osc) = Stopped then [Start osc] else [])\<rparr>"
  using assms
  by (simp add: ring_block_def Let_def set_opts_put start_put state_of_def)

lemma ring_block_off:
  assumes "ringModRef w = Some osc" and "ringGainRef w = Some g" and "\<not> 0 < ringModHz s"
  shows "ring_block s w =
    w\<lparr>nodes := (if state (nodes w ! osc) = Started then put_state osc Stopped else id)
                 (put_opts (Some g) [(K_gain, Num 0)]
                    (put_opts (Some osc) [(K_frequency, Num (max 0.0001 (ringModHz s)))] (nodes w))),
      calls := calls w @ (if state (nodes w ! osc) = Started then [Stop osc] else [])\<rparr>"
  using assms
  by (simp add: ring_block_def Let_def set_opts_put stop_put state_of_def)

lemma ring_block_cases:
  obtains (absent) "ringModRef w = None \<or> ringGainRef w = None"
  | (on) osc g where "ringModRef w = Some osc" "ringGainRef w = Some g" "0 < ringModHz s"
  | (off) osc g where "ringModRef w = Some osc" "ringGainRef w = Some g" "\<not> 0 < ringModHz s"
  by (cases "ringModRef w"; cases "ringGainRef w"; cases "0 < ringModHz s") auto

lemma ring_block_frame:
  "ring_block s w = w\<lparr>nodes := nodes (ring_block s w), calls := calls (ring_block s w)\<rparr>"
  by (rule ring_block_cases [where w=w and s=s]) (simp_all add: ring_block_absent ring_block_on ring_block_off)

lemma ring_block_kind: "map kind (nodes (ring_block s w)) = map kind (nodes w)"
  by (rule ring_block_cases [where w=w and s=s]) (simp_all add: ring_block_absent ring_block_on ring_block_off)

lemma ring_block_disposed: "map disposed (nodes (ring_block s w)) = map disposed (nodes w)"
  by (rule ring_block_cases [where w=w and s=s]) (simp_all add: ring_block_absent ring_block_on ring_block_off)

lemma ring_block_calls:
  "filter topology_call (calls (ring_block s w)) = filter topology_call (calls w)"
  by (rule ring_block_cases [where w=w and s=s])
    (simp_all add: ring_block_absent ring_block_on ring_block_off topology_call_def)

lemma ring_block_state:
  "ringModRef w \<noteq> Some a \<Longrightarrow> state_of a (ring_block s w) = state_of a w"
  by (rule ring_block_cases [where w=w and s=s])
    (auto simp: ring_block_absent ring_block_on ring_block_off state_of_def state_nth_put_state)

lemma ring_block_length: "length (nodes (ring_block s w)) = length (nodes w)"
  by (rule ring_block_cases [where w=w and s=s])
    (simp_all add: ring_block_absent ring_block_on ring_block_off)

lemma ring_block_opts_other:
  assumes "k \<noteq> K_frequency" and "k \<noteq> K_gain"
  shows "opts (nodes (ring_block s w) ! b) k = opts (nodes w ! b) k"
  using assms
  by (rule_tac ring_block_cases [where w=w and s=s])
    (simp_all add: ring_block_absent ring_block_on ring_block_off opts_put_opts_other)

lemma ring_block_nth_other:
  assumes "ringModRef w \<noteq> Some b" and "ringGainRef w \<noteq> Some b"
  shows "nodes (ring_block s w) ! b = nodes w ! b"
  using assms
  by (rule_tac ring_block_cases [where w=w and s=s])
    (auto simp: ring_block_absent ring_block_on ring_block_off put_opts_nth_other
      put_state_nth_other)

lemma applySettings_length: "length (nodes (applySettings s w)) = length (nodes w)"
  by (simp add: applySettings_def ring_block_length set_stage_params_shape)

lemma applySettings_frame:
  "applySettings s w = w\<lparr>nodes := nodes (applySettings s w), calls := calls (applySettings s w)\<rparr>"
proof -
  let ?v = "set_stage_params s w"
  have v: "?v = w\<lparr>nodes := nodes ?v\<rparr>"
    by (simp add: set_stage_params_shape)
  show ?thesis
    unfolding applySettings_def
    by (subst ring_block_frame, subst v) simp
qed

lemma applySettings_refs:
  "pitchShiftRef (applySettings s w) = pitchShiftRef w"
  "distortionRef (applySettings s w) = distortionRef w"
  "delayRef (applySettings s w) = delayRef w"
  "reverbRef (applySettings s w) = reverbRef w"
  "eqRef (applySettings s w) = eqRef w"
  "ringModRef (applySettings s w) = ringModRef w"
  "ringGainRef (applySettings s w) = ringGainRef w"
  "finalGainRef (applySettings s w) = finalGainRef w"
  "analyserRef (applySettings s w) = analyserRef w"
  "mediaDestRef (applySettings s w) = mediaDestRef w"
  "inputNodeRef (applySettings s w) = inputNodeRef w"
  "filePlayerRef (applySettings s w) = filePlayerRef w"
  by (subst applySettings_frame, simp)+

lemma applySettings_stage_opts:
  assumes "k \<noteq> K_frequency" and "k \<noteq> K_gain"
  shows "opts (nodes (applySettings s w) ! b) k = opts (nodes (set_stage_params s w) ! b) k"
  using assms by (simp add: applySettings_def ring_block_opts_other)

lemma applySettings_nth_other:
  assumes "Some b \<notin> set [pitchShiftRef w, distortionRef w, delayRef w, reverbRef w, eqRef w,
                           ringModRef w, ringGainRef w]"
  shows "nodes (applySettings s w) ! b = nodes w ! b"
proof -
  let ?v = "set_stage_params s w"
  have "ringModRef ?v \<noteq> Some b" "ringGainRef ?v \<noteq> Some b"
    using assms by (auto simp: set_stage_params_shape)
  then have "nodes (applySettings s w) ! b = nodes ?v ! b"
    unfolding applySettings_def by (rule ring_block_nth_other)
  also have "\<dots> = nodes w ! b"
    using assms by (auto simp: set_stage_params_shape put_opts_nth_other)
  finally show ?thesis .
qed

subsection \<open>The topology is kept\<close>

text \<open>
  Claim C4. For every settings value and every page, \<open>applySettings\<close> leaves the
  connections as they are, in the same order; it changes nothing of the page but the node
  store and the call log (so every ref still points where it did); the store keeps its
  nodes, each of the same kind and as disposed or live as before; no node is created,
  connected, disconnected or released; and no node but the ring oscillator changes its
  playback state. What it does change are node options.
\<close>

theorem applySettings_keeps_topology:
  "edges (applySettings s w) = edges w
   \<and> applySettings s w
       = w\<lparr>nodes := nodes (applySettings s w), calls := calls (applySettings s w)\<rparr>
   \<and> map kind (nodes (applySettings s w)) = map kind (nodes w)
   \<and> map disposed (nodes (applySettings s w)) = map disposed (nodes w)
   \<and> filter topology_call (calls (applySettings s w)) = filter topology_call (calls w)
   \<and> (\<forall>a. ringModRef w \<noteq> Some a \<longrightarrow> state_of a (applySettings s w) = state_of a w)"
proof -
  let ?v = "set_stage_params s w"
  have v: "?v = w\<lparr>nodes := nodes ?v\<rparr>"
    by (simp add: set_stage_params_shape)
  have frame: "applySettings s w
      = w\<lparr>nodes := nodes (applySettings s w), calls := calls (applySettings s w)\<rparr>"
    unfolding applySettings_def
    by (subst ring_block_frame, subst v) simp
  have "edges (applySettings s w) = edges w"
    by (subst frame) simp
  moreover have "map kind (nodes (applySettings s w)) = map kind (nodes w)"
    by (simp add: applySettings_def ring_block_kind set_stage_params_shape)
  moreover have "map disposed (nodes (applySettings s w)) = map disposed (nodes w)"
    by (simp add: applySettings_def ring_block_disposed set_stage_params_shape)
  moreover have "filter topology_call (calls (applySettings s w)) = filter topology_call (calls w)"
    by (simp add: applySettings_def ring_block_calls set_stage_params_shape)
  moreover have "state_of a (applySettings s w) = state_of a w" if "ringModRef w \<noteq> Some a" for a
  proof -
    have "ringModRef ?v \<noteq> Some a"
      using that by (simp add: set_stage_params_shape)
    then have "state_of a (applySettings s w) = state_of a ?v"
      unfolding applySettings_def by (rule ring_block_state)
    then show ?thesis
      by (simp add: set_stage_params_shape state_of_def)
  qed
  ultimately show ?thesis
    using frame by blast
qed

text \<open>On the mounted page the final gain (node 6) is not the ring oscillator (node 8).\<close>

theorem applySettings_keeps_topology_witness:
  "ringModRef (mount initial_page) \<noteq> Some 6
   \<and> state_of 6 (applySettings (PRESETS robot) (mount initial_page))
       = state_of 6 (mount initial_page)
   \<and> edges (applySettings (PRESETS robot) (mount initial_page)) = edges (mount initial_page)"
  using applySettings_keeps_topology [of "PRESETS robot" "mount initial_page"]
  by (simp add: mount_refs)

subsection \<open>The ring-modulation rule\<close>

lemma ring_rule_on:
  assumes "ringModRef w = Some osc" and "ringGainRef w = Some g"
    and "osc < length (nodes w)" and "g < length (nodes w)" and "0 < ringModHz s"
  shows "opts (nodes (applySettings s w) ! g) K_gain = Some (Num 0.5)"
    and "state_of osc (applySettings s w) = Started"
    and "opts (nodes (applySettings s w) ! osc) K_frequency = Some (Num (max 0.0001 (ringModHz s)))"
    and "calls (applySettings s w) = calls w @ (if state_of osc w = Stopped then [Start osc] else [])"
proof -
  let ?v = "set_stage_params s w"
  have refs: "ringModRef ?v = Some osc" "ringGainRef ?v = Some g"
    using assms by (simp_all add: set_stage_params_shape)
  have len: "osc < length (nodes ?v)" "g < length (nodes ?v)"
    using assms by (simp_all add: set_stage_params_shape)
  have st: "state (nodes ?v ! osc) = state (nodes w ! osc)"
    by (simp add: set_stage_params_shape)
  have cs: "calls ?v = calls w"
    by (simp add: set_stage_params_shape)
  note shape = ring_block_on [OF refs \<open>0 < ringModHz s\<close>]
  show "opts (nodes (applySettings s w) ! g) K_gain = Some (Num 0.5)"
    using len by (cases "state (nodes w ! osc)")
      (simp_all add: applySettings_def shape st opts_put_opts_same)
  show "state_of osc (applySettings s w) = Started"
    using len by (cases "state (nodes w ! osc)")
      (simp_all add: applySettings_def shape st state_of_def state_nth_put_state)
  show "opts (nodes (applySettings s w) ! osc) K_frequency = Some (Num (max 0.0001 (ringModHz s)))"
    using len by (cases "state (nodes w ! osc)")
      (simp_all add: applySettings_def shape st opts_put_opts_same opts_put_opts_other)
  show "calls (applySettings s w) = calls w @ (if state_of osc w = Stopped then [Start osc] else [])"
    by (simp add: applySettings_def shape st cs state_of_def)
qed

lemma ring_rule_off:
  assumes "ringModRef w = Some osc" and "ringGainRef w = Some g"
    and "osc < length (nodes w)" and "g < length (nodes w)" and "\<not> 0 < ringModHz s"
  shows "opts (nodes (applySettings s w) ! g) K_gain = Some (Num 0)"
    and "state_of osc (applySettings s w) = Stopped"
    and "opts (nodes (applySettings s w) ! osc) K_frequency = Some (Num (max 0.0001 (ringModHz s)))"
    and "calls (applySettings s w) = calls w @ (if state_of osc w = Started then [Stop osc] else [])"
proof -
  let ?v = "set_stage_params s w"
  have refs: "ringModRef ?v = Some osc" "ringGainRef ?v = Some g"
    using assms by (simp_all add: set_stage_params_shape)
  have len: "osc < length (nodes ?v)" "g < length (nodes ?v)"
    using assms by (simp_all add: set_stage_params_shape)
  have st: "state (nodes ?v ! osc) = state (nodes w ! osc)"
    by (simp add: set_stage_params_shape)
  have cs: "calls ?v = calls w"
    by (simp add: set_stage_params_shape)
  note shape = ring_block_off [OF refs \<open>\<not> 0 < ringModHz s\<close>]
  show "opts (nodes (applySettings s w) ! g) K_gain = Some (Num 0)"
    using len by (cases "state (nodes w ! osc)")
      (simp_all add: applySettings_def shape st opts_put_opts_same)
  show "state_of osc (applySettings s w) = Stopped"
    using len by (cases "state (nodes w ! osc)")
      (simp_all add: applySettings_def shape st state_of_def state_nth_put_state)
  show "opts (nodes (applySettings s w) ! osc) K_frequency = Some (Num (max 0.0001 (ringModHz s)))"
    using len by (cases "state (nodes w ! osc)")
      (simp_all add: applySettings_def shape st opts_put_opts_same opts_put_opts_other)
  show "calls (applySettings s w) = calls w @ (if state_of osc w = Started then [Stop osc] else [])"
    by (simp add: applySettings_def shape st cs state_of_def)
qed

text \<open>
  Claim C2. On a page whose ring oscillator and ring gain exist, for every settings value:
  when \<open>ringModHz > 0\<close> the ring gain is 0.5 afterwards, the oscillator is started with
  frequency \<open>max 0.0001 ringModHz\<close>, and \<^verbatim>\<open>start\<close> is called exactly when the oscillator
  was stopped; when \<open>ringModHz = 0\<close> the ring gain is 0 afterwards, the oscillator is
  stopped, and \<^verbatim>\<open>stop\<close> is called exactly when it was started.
\<close>

theorem applySettings_ring_rule:
  assumes "ringModRef w = Some osc" and "ringGainRef w = Some g"
    and "osc < length (nodes w)" and "g < length (nodes w)"
  shows "(0 < ringModHz s \<longrightarrow>
            opts (nodes (applySettings s w) ! g) K_gain = Some (Num 0.5)
          \<and> state_of osc (applySettings s w) = Started
          \<and> opts (nodes (applySettings s w) ! osc) K_frequency
              = Some (Num (max 0.0001 (ringModHz s)))
          \<and> calls (applySettings s w)
              = calls w @ (if state_of osc w = Stopped then [Start osc] else []))
       \<and> (ringModHz s = 0 \<longrightarrow>
            opts (nodes (applySettings s w) ! g) K_gain = Some (Num 0)
          \<and> state_of osc (applySettings s w) = Stopped
          \<and> calls (applySettings s w)
              = calls w @ (if state_of osc w = Started then [Stop osc] else []))"
  using ring_rule_on [OF assms, of s] ring_rule_off [OF assms, of s] by simp

text \<open>The rule at work on the mounted page, for the presets robot (90 Hz) and clean (0 Hz).\<close>

theorem applySettings_ring_rule_witness:
  "ringModRef (mount initial_page) = Some 8 \<and> ringGainRef (mount initial_page) = Some 9
   \<and> 8 < length (nodes (mount initial_page)) \<and> 9 < length (nodes (mount initial_page))
   \<and> 0 < ringModHz (PRESETS robot)
   \<and> opts (nodes (applySettings (PRESETS robot) (mount initial_page)) ! 9) K_gain
       = Some (Num 0.5)
   \<and> state_of 8 (applySettings (PRESETS robot) (mount initial_page)) = Started
   \<and> opts (nodes (applySettings (PRESETS robot) (mount initial_page)) ! 8) K_frequency
       = Some (Num 90)
   \<and> calls (applySettings (PRESETS robot) (mount initial_page))
       = calls (mount initial_page) @ [Start 8]
   \<and> ringModHz (PRESETS clean) = 0
   \<and> opts (nodes (applySettings (PRESETS clean) (mount initial_page)) ! 9) K_gain
       = Some (Num 0)
   \<and> state_of 8 (applySettings (PRESETS clean) (mount initial_page)) = Stopped
   \<and> calls (applySettings (PRESETS clean) (mount initial_page)) = calls (mount initial_page)"
proof -
  have l: "8 < length (nodes (mount initial_page))" "9 < length (nodes (mount initial_page))"
    by (simp_all add: mount_length)
  have st: "state_of 8 (mount initial_page) = Stopped"
  proof -
    have "state_of 8 (mount initial_page) = map state (nodes (mount initial_page)) ! 8"
      by (simp add: state_of_def mount_length)
    then show ?thesis
      by (simp add: mount_states)
  qed
  note on = applySettings_ring_rule [OF mount_refs(8) mount_refs(9) l, of "PRESETS robot"]
  note off = applySettings_ring_rule [OF mount_refs(8) mount_refs(9) l, of "PRESETS clean"]
  show ?thesis
    using on off l st by (simp add: mount_refs)
qed

subsection \<open>What a click on a preset writes\<close>

lemma graph_built_iff:
  "graph_built w \<longleftrightarrow>
     (\<exists>p d dl r e osc g.
        pitchShiftRef w = Some p \<and> distortionRef w = Some d \<and> delayRef w = Some dl
      \<and> reverbRef w = Some r \<and> eqRef w = Some e \<and> ringModRef w = Some osc
      \<and> ringGainRef w = Some g
      \<and> p < length (nodes w) \<and> d < length (nodes w) \<and> dl < length (nodes w)
      \<and> r < length (nodes w) \<and> e < length (nodes w) \<and> osc < length (nodes w)
      \<and> g < length (nodes w))"
  by (auto simp: graph_built_def split: option.splits)

lemma graph_built_ui [simp]:
  "graph_built (w\<lparr>preset := x\<rparr>) = graph_built w"
  "graph_built (w\<lparr>settings := y\<rparr>) = graph_built w"
  by (simp_all add: graph_built_iff)

lemma read_stage_opts:
  assumes "graph_built w"
  shows "read_opt (pitchShiftRef w) K_pitch (applySettings s w) = Some (Num (pitchSemitones s))"
    and "read_opt (distortionRef w) K_distortion (applySettings s w) = Some (Num (distortion s))"
    and "read_opt (delayRef w) K_delayTime (applySettings s w) = Some (Num (delayTime s))"
    and "read_opt (delayRef w) K_feedback (applySettings s w) = Some (Num (delayFeedback s))"
    and "read_opt (reverbRef w) K_wet (applySettings s w) = Some (Num (reverbWet s))"
    and "read_opt (eqRef w) K_low (applySettings s w) = Some (Num (eqLow s))"
    and "read_opt (eqRef w) K_mid (applySettings s w) = Some (Num (eqMid s))"
    and "read_opt (eqRef w) K_high (applySettings s w) = Some (Num (eqHigh s))"
  using assms
  by (auto simp: graph_built_iff read_opt_def applySettings_length applySettings_stage_opts
      set_stage_params_shape opts_put_opts_other opts_put_opts_same)

lemma read_ring_opts:
  assumes "graph_built w"
  shows "read_opt (ringModRef w) K_frequency (applySettings s w)
           = Some (Num (max 0.0001 (ringModHz s)))"
    and "read_opt (ringGainRef w) K_gain (applySettings s w)
           = Some (Num (if 0 < ringModHz s then 0.5 else 0))"
    and "map_option (\<lambda>a. state_of a (applySettings s w)) (ringModRef w)
           = Some (if 0 < ringModHz s then Started else Stopped)"
proof -
  from assms obtain osc g where r: "ringModRef w = Some osc" "ringGainRef w = Some g"
    and l: "osc < length (nodes w)" "g < length (nodes w)"
    by (auto simp: graph_built_iff)
  note on = ring_rule_on [OF r l, of s] and off = ring_rule_off [OF r l, of s]
  show "read_opt (ringModRef w) K_frequency (applySettings s w)
           = Some (Num (max 0.0001 (ringModHz s)))"
    using on(3) off(3) l by (cases "0 < ringModHz s") (simp_all add: read_opt_def r applySettings_length)
  show "read_opt (ringGainRef w) K_gain (applySettings s w)
           = Some (Num (if 0 < ringModHz s then 0.5 else 0))"
    using on(1) off(1) l by (cases "0 < ringModHz s") (simp_all add: read_opt_def r applySettings_length)
  show "map_option (\<lambda>a. state_of a (applySettings s w)) (ringModRef w)
           = Some (if 0 < ringModHz s then Started else Stopped)"
    using on(2) off(2) by (cases "0 < ringModHz s") (simp_all add: r)
qed

lemma ring_floor_catalog:
  "0 < ringModHz (PRESETS P) \<Longrightarrow> max 0.0001 (ringModHz (PRESETS P)) = ringModHz (PRESETS P)"
  by (cases P) simp_all

lemma preset_click_effect:
  "held \<noteq> Some P \<Longrightarrow> preset_click held P w = applySettings (PRESETS P) (applyPreset P w)"
  by (simp add: preset_click_def Let_def settings_effect_def applyPreset_def)

lemma preset_click_same:
  "preset_click (Some P) P w = applyPreset P w"
  by (simp add: preset_click_def Let_def)

text \<open>
  Claim C3, as stated, fails on the mounted page, where the settings state is the
  catalog's object for clean. A click on deep runs the settings effect, which assigns the
  oscillator the frequency 0.0001, while \<open>ringModHz\<close> of deep is 0. A click on clean
  stores the object that is already there, so no effect runs and the oscillator keeps the
  frequency 1 it was built with, while \<open>ringModHz\<close> of clean is 0.
\<close>

theorem applyPreset_frequency_mismatch:
  "ringModHz (PRESETS deep) = 0
   \<and> read_opt (ringModRef (preset_click (Some clean) deep (mount initial_page))) K_frequency
        (preset_click (Some clean) deep (mount initial_page))
      = Some (Num 0.0001)
   \<and> ringModHz (PRESETS clean) = 0
   \<and> read_opt (ringModRef (preset_click (Some clean) clean (mount initial_page))) K_frequency
        (preset_click (Some clean) clean (mount initial_page))
      = Some (Num 1)"
proof -
  have "graph_built (applyPreset deep (mount initial_page))"
    by (simp add: applyPreset_def mount_built)
  from read_ring_opts(1) [OF this, of "PRESETS deep"]
  have deep: "read_opt (ringModRef (preset_click (Some clean) deep (mount initial_page)))
      K_frequency (preset_click (Some clean) deep (mount initial_page)) = Some (Num 0.0001)"
    by (simp add: preset_click_effect applyPreset_def applySettings_refs)
  have "read_opt (ringModRef (preset_click (Some clean) clean (mount initial_page)))
      K_frequency (preset_click (Some clean) clean (mount initial_page)) = Some (Num 1)"
    by (simp add: preset_click_same applyPreset_def read_opt_def mount_refs mount_length
        nodes_mount_initial built_nodes_def fresh_node_def)
  with deep show ?thesis
    by simp
qed

text \<open>
  Claim C3, amended. On a page whose graph is built, for every preset \<open>P\<close> of the
  catalog: a click on \<open>P\<close> when the settings state is not already \<open>P\<close>'s catalog object
  runs the settings effect, after which the values handed to the nodes are \<open>P\<close>'s fields
  for pitch, distortion amount, delay time, feedback, reverb wet and the three EQ gains;
  the frequency assigned to the oscillator is \<open>max 0.0001 ringModHz\<close>, which is \<open>P\<close>'s
  \<open>ringModHz\<close> when that is positive; the ring gain is set to 0.5 and the oscillator is
  started when \<open>ringModHz > 0\<close>, the ring gain is set to 0 and the oscillator is stopped
  otherwise. A click on \<open>P\<close> when the state already is \<open>P\<close>'s object writes nothing to any
  node and calls nothing. The robot entry has the listed values, and a click on it from
  any other state leaves the oscillator assigned 90 Hz and started, the ring gain set to
  0.5 and the distortion amount set to 0.35.
\<close>

theorem preset_click_writes:
  assumes "graph_built w"
  shows "(held \<noteq> Some P \<longrightarrow>
           (let s = PRESETS P; w' = preset_click held P w
            in read_opt (pitchShiftRef w') K_pitch w' = Some (Num (pitchSemitones s))
             \<and> read_opt (distortionRef w') K_distortion w' = Some (Num (distortion s))
             \<and> read_opt (delayRef w') K_delayTime w' = Some (Num (delayTime s))
             \<and> read_opt (delayRef w') K_feedback w' = Some (Num (delayFeedback s))
             \<and> read_opt (reverbRef w') K_wet w' = Some (Num (reverbWet s))
             \<and> read_opt (eqRef w') K_low w' = Some (Num (eqLow s))
             \<and> read_opt (eqRef w') K_mid w' = Some (Num (eqMid s))
             \<and> read_opt (eqRef w') K_high w' = Some (Num (eqHigh s))
             \<and> read_opt (ringModRef w') K_frequency w' = Some (Num (max 0.0001 (ringModHz s)))
             \<and> (0 < ringModHz s \<longrightarrow>
                   read_opt (ringModRef w') K_frequency w' = Some (Num (ringModHz s)))
             \<and> read_opt (ringGainRef w') K_gain w'
                 = Some (Num (if 0 < ringModHz s then 0.5 else 0))
             \<and> map_option (\<lambda>a. state_of a w') (ringModRef w')
                 = Some (if 0 < ringModHz s then Started else Stopped)))
       \<and> (held = Some P \<longrightarrow>
             nodes (preset_click held P w) = nodes w
           \<and> calls (preset_click held P w) = calls w
           \<and> edges (preset_click held P w) = edges w)
       \<and> PRESETS robot
           = \<lparr>pitchSemitones = 0, reverbWet = 0.08, distortion = 0.35, delayTime = 0,
              delayFeedback = 0, eqLow = 0, eqMid = 3, eqHigh = -2, ringModHz = 90\<rparr>
       \<and> (held \<noteq> Some robot \<longrightarrow>
           (let w' = preset_click held robot w
            in read_opt (ringModRef w') K_frequency w' = Some (Num 90)
             \<and> map_option (\<lambda>a. state_of a w') (ringModRef w') = Some Started
             \<and> read_opt (ringGainRef w') K_gain w' = Some (Num 0.5)
             \<and> read_opt (distortionRef w') K_distortion w' = Some (Num 0.35)))"
proof -
  have b: "graph_built (applyPreset Q w)" for Q
    using assms by (simp add: applyPreset_def)
  have gen: "let s = PRESETS Q; w' = preset_click held Q w
          in read_opt (pitchShiftRef w') K_pitch w' = Some (Num (pitchSemitones s))
           \<and> read_opt (distortionRef w') K_distortion w' = Some (Num (distortion s))
           \<and> read_opt (delayRef w') K_delayTime w' = Some (Num (delayTime s))
           \<and> read_opt (delayRef w') K_feedback w' = Some (Num (delayFeedback s))
           \<and> read_opt (reverbRef w') K_wet w' = Some (Num (reverbWet s))
           \<and> read_opt (eqRef w') K_low w' = Some (Num (eqLow s))
           \<and> read_opt (eqRef w') K_mid w' = Some (Num (eqMid s))
           \<and> read_opt (eqRef w') K_high w' = Some (Num (eqHigh s))
           \<and> read_opt (ringModRef w') K_frequency w' = Some (Num (max 0.0001 (ringModHz s)))
           \<and> (0 < ringModHz s \<longrightarrow>
                 read_opt (ringModRef w') K_frequency w' = Some (Num (ringModHz s)))
           \<and> read_opt (ringGainRef w') K_gain w'
               = Some (Num (if 0 < ringModHz s then 0.5 else 0))
           \<and> map_option (\<lambda>a. state_of a w') (ringModRef w')
               = Some (if 0 < ringModHz s then Started else Stopped)"
    if "held \<noteq> Some Q" for Q
    unfolding Let_def preset_click_effect [OF that] applySettings_refs
    using read_stage_opts [OF b [of Q], of "PRESETS Q"] read_ring_opts [OF b [of Q], of "PRESETS Q"]
      ring_floor_catalog [of Q]
    by simp
  have rob: "let w' = preset_click held robot w
          in read_opt (ringModRef w') K_frequency w' = Some (Num 90)
           \<and> map_option (\<lambda>a. state_of a w') (ringModRef w') = Some Started
           \<and> read_opt (ringGainRef w') K_gain w' = Some (Num 0.5)
           \<and> read_opt (distortionRef w') K_distortion w' = Some (Num 0.35)"
    if "held \<noteq> Some robot"
    using gen [OF that] by (simp add: Let_def)
  have same: "nodes (preset_click held P w) = nodes w
           \<and> calls (preset_click held P w) = calls w
           \<and> edges (preset_click held P w) = edges w"
    if "held = Some P"
    using that by (simp add: preset_click_same applyPreset_def)
  from gen [of P] rob same show ?thesis
    by simp
qed

text \<open>
  On the mounted page, whose settings state is the catalog's object for clean: a click on
  alien hands over 30 Hz and a pitch of -12, a click on clean writes nothing.
\<close>

theorem preset_click_writes_witness:
  "graph_built (mount initial_page)
   \<and> Some clean \<noteq> Some alien
   \<and> 0 < ringModHz (PRESETS alien)
   \<and> read_opt (ringModRef (preset_click (Some clean) alien (mount initial_page))) K_frequency
        (preset_click (Some clean) alien (mount initial_page))
      = Some (Num 30)
   \<and> read_opt (pitchShiftRef (preset_click (Some clean) alien (mount initial_page))) K_pitch
        (preset_click (Some clean) alien (mount initial_page))
      = Some (Num (- 12))
   \<and> nodes (preset_click (Some clean) clean (mount initial_page)) = nodes (mount initial_page)"
  using preset_click_writes [OF mount_built, of "Some clean" alien]
    preset_click_writes [OF mount_built, of "Some clean" clean] mount_built
  by (simp add: Let_def)

section \<open>The cleanup\<close>





lemma dispose_length [simp]: "length (nodes (dispose a w)) = length (nodes w)"
  by (simp add: dispose_def upd_node_def)



lemma dispose_calls [simp]: "calls (dispose a w) = calls w @ [Dispose a]"
  by (simp add: dispose_def upd_node_def)

lemma dispose_seq_length [simp]:
  "length (nodes (page_of (dispose_seq t as w))) = length (nodes w)"
  by (induction as arbitrary: w) simp_all












section \<open>Attaching a file\<close>

lemma release_old_player:
  "dispose old (disconnect old (stop old w)) =
     w\<lparr>nodes := (nodes w)[old := (nodes w ! old)\<lparr>state := Stopped, disposed := True\<rparr>],
       edges := filter (\<lambda>e. fst e \<noteq> old) (edges w),
       calls := calls w @ [Stop old, Disconnect old, Dispose old]\<rparr>"
proof -
  have "((nodes w)[old := (nodes w ! old)\<lparr>state := Stopped\<rparr>])
          [old := ((nodes w)[old := (nodes w ! old)\<lparr>state := Stopped\<rparr>] ! old)
                    \<lparr>state := Stopped, disposed := True\<rparr>]
        = (nodes w)[old := (nodes w ! old)\<lparr>state := Stopped, disposed := True\<rparr>]"
    using update_twice [of "nodes w" old "\<lambda>n. n\<lparr>state := Stopped\<rparr>"
        "\<lambda>n. n\<lparr>state := Stopped, disposed := True\<rparr>"]
    by simp
  then show ?thesis
    by (simp add: dispose_def disconnect_def stop_def upd_node_def)
qed

lemma handleFileSelect_shape:
  assumes "pitchShiftRef w = Some entry"
  shows "handleFileSelect url w =
    Done (w\<lparr>nodes :=
               (case filePlayerRef w of
                  None \<Rightarrow> nodes w
                | Some old \<Rightarrow>
                    (nodes w)[old := (nodes w ! old)\<lparr>state := Stopped, disposed := True\<rparr>])
               @ [fresh_node Player
                    [(K_url, Str url), (K_autostart, Flag False), (K_loop, Flag False)]],
             edges :=
               (case filePlayerRef w of
                  None \<Rightarrow> edges w
                | Some old \<Rightarrow> filter (\<lambda>e. fst e \<noteq> old) (edges w))
               @ [(length (nodes w), entry)],
             calls :=
               calls w
               @ (case filePlayerRef w of
                    None \<Rightarrow> []
                  | Some old \<Rightarrow> [Stop old, Disconnect old, Dispose old])
               @ [New (length (nodes w)), Connect (length (nodes w)) entry],
             filePlayerRef := Some (length (nodes w))\<rparr>)"
  using assms
  by (cases "filePlayerRef w")
    (simp_all add: handleFileSelect_def release_old_player Let_def new_node_def
      connect_entry_def connect_def)

lemma file_page_facts:
  "pitchShiftRef file_page = Some 1" "filePlayerRef file_page = Some 11"
  "length (nodes file_page) = 12"
  unfolding file_page_def
  by (simp_all add: handleFileSelect_shape [where entry = 1] mount_refs mount_length)

text \<open>
  Claim C6. On a page whose entry node exists, \<open>handleFileSelect\<close> runs to its end: if a
  file player was attached it is stopped, disconnected and disposed, once each and in this
  order, before the new player is created; the new player is connected to the entry node
  and to nothing else, becomes the attached file player, is created with
  \<^verbatim>\<open>autostart: false\<close> and is not started. The old player ends up disposed, stopped and
  without outgoing connections.
\<close>

theorem handleFileSelect_replaces_player:
  assumes "pitchShiftRef w = Some entry"
  shows "(let q = length (nodes w); w' = page_of (handleFileSelect url w)
          in handleFileSelect url w = Done w'
           \<and> calls w' = calls w
               @ (case filePlayerRef w of
                    None \<Rightarrow> []
                  | Some old \<Rightarrow> [Stop old, Disconnect old, Dispose old])
               @ [New q, Connect q entry]
           \<and> filePlayerRef w' = Some q
           \<and> length (nodes w') = Suc q
           \<and> nodes w' ! q
               = fresh_node Player
                   [(K_url, Str url), (K_autostart, Flag False), (K_loop, Flag False)]
           \<and> state_of q w' = Stopped
           \<and> edges w'
               = (case filePlayerRef w of
                    None \<Rightarrow> edges w
                  | Some old \<Rightarrow> filter (\<lambda>e. fst e \<noteq> old) (edges w))
                 @ [(q, entry)]
           \<and> (\<forall>old < length (nodes w).
                 filePlayerRef w = Some old \<longrightarrow>
                   disposed (nodes w' ! old) \<and> state_of old w' = Stopped
                   \<and> outputs_of old w' = []))"
  by (cases "filePlayerRef w")
    (auto simp: handleFileSelect_shape [OF assms] Let_def state_of_def fresh_node_def
      nth_append outputs_of_def filter_empty_conv)

text \<open>Choosing a second file on the mounted page, after a first one (node 11).\<close>

theorem handleFileSelect_replaces_player_witness:
  "pitchShiftRef file_page = Some 1 \<and> filePlayerRef file_page = Some 11
   \<and> 11 < length (nodes file_page)
   \<and> handleFileSelect ''blob:second'' file_page
       = Done (page_of (handleFileSelect ''blob:second'' file_page))
   \<and> calls (page_of (handleFileSelect ''blob:second'' file_page))
       = calls file_page @ [Stop 11, Disconnect 11, Dispose 11, New 12, Connect 12 1]
   \<and> filePlayerRef (page_of (handleFileSelect ''blob:second'' file_page)) = Some 12
   \<and> disposed (nodes (page_of (handleFileSelect ''blob:second'' file_page)) ! 11)
   \<and> outputs_of 11 (page_of (handleFileSelect ''blob:second'' file_page)) = []
   \<and> state_of 12 (page_of (handleFileSelect ''blob:second'' file_page)) = Stopped"
  using handleFileSelect_replaces_player [OF file_page_facts(1), of "''blob:second''"]
  by (simp add: Let_def file_page_facts)

section \<open>The settings state\<close>

text \<open>
  Claim C8. The settings state is an \<open>EffectSettings\<close> record, so all nine fields are
  present in every page. For every key \<open>k\<close> and value \<open>v\<close>, \<open>setSetting k v\<close> stores a
  settings value that has \<open>v\<close> at \<open>k\<close> and the previous value at every other key, is a
  complete nine-field object, and changes nothing else of the page.
\<close>

theorem setSetting_merges_one_field:
  "field k' (settings (setSetting k v w)) = (if k' = k then v else field k' (settings w))
   \<and> settings (setSetting k v w)
       = \<lparr>pitchSemitones = field Key_pitchSemitones (settings (setSetting k v w)),
          reverbWet = field Key_reverbWet (settings (setSetting k v w)),
          distortion = field Key_distortion (settings (setSetting k v w)),
          delayTime = field Key_delayTime (settings (setSetting k v w)),
          delayFeedback = field Key_delayFeedback (settings (setSetting k v w)),
          eqLow = field Key_eqLow (settings (setSetting k v w)),
          eqMid = field Key_eqMid (settings (setSetting k v w)),
          eqHigh = field Key_eqHigh (settings (setSetting k v w)),
          ringModHz = field Key_ringModHz (settings (setSetting k v w))\<rparr>
   \<and> setSetting k v w = w\<lparr>settings := settings (setSetting k v w)\<rparr>"
  by (cases k; cases k') (simp_all add: setSetting_def)

text \<open>
  Claim C7, as stated, fails: for the string \<open>bogus\<close>, which is no key of the catalog,
  \<open>applyPreset\<close> raises nothing and hands \<^verbatim>\<open>undefined\<close> to \<^verbatim>\<open>setSettings\<close>.
\<close>

theorem applyPreset_unknown_id:
  "applyPreset_untyped ''bogus'' = (''bogus'', None)"
  by (simp add: applyPreset_untyped_def PRESETS_at_def catalog_def)

text \<open>
  Claim C7, amended. \<open>applyPreset\<close> has no error path: its argument has type
  \<open>PresetId\<close>, whose seven values are the keys of the catalog, and for each of them the
  lookup is defined. It stores the id and replaces the whole settings value by the preset's,
  whatever the settings were, and changes nothing else of the page.
\<close>

theorem applyPreset_total:
  "preset (applyPreset pid w) = pid
   \<and> settings (applyPreset pid w) = PRESETS pid
   \<and> applyPreset pid w = w\<lparr>preset := pid, settings := PRESETS pid\<rparr>
   \<and> pid \<in> set catalog
   \<and> length catalog = 7
   \<and> applyPreset_untyped (preset_key pid) = (preset_key pid, Some (PRESETS pid))"
  by (cases pid) (simp_all add: applyPreset_def catalog_def applyPreset_untyped_def PRESETS_at_def)

section \<open>The final gain\<close>

lemma unbuilt_iff:
  "unbuilt w \<longleftrightarrow>
     inputNodeRef w = None \<and> filePlayerRef w = None \<and> pitchShiftRef w = None
   \<and> ringModRef w = None \<and> ringGainRef w = None \<and> distortionRef w = None
   \<and> delayRef w = None \<and> reverbRef w = None \<and> eqRef w = None \<and> analyserRef w = None
   \<and> finalGainRef w = None \<and> mediaDestRef w = None"
  by (simp add: unbuilt_def)

lemma unbuilt_perform:
  assumes "unbuilt w"
  shows "unbuilt (perform ev w)"
proof (cases ev)
  case (Ev_applyPreset pid)
  then show ?thesis
    using assms by (simp add: unbuilt_iff applyPreset_def)
next
  case (Ev_setSetting key v)
  then show ?thesis
    using assms by (simp add: unbuilt_iff setSetting_def)
next
  case Ev_settingsEffect
  then show ?thesis
    using assms by (simp add: unbuilt_iff settings_effect_def applySettings_refs)
next
  case (Ev_micToggle granted)
  then show ?thesis
    using assms
    by (simp add: unbuilt_iff handleMicToggle_def Let_def new_node_def connect_entry_def
        open_mic_def upd_node_def on_ref_def)
next
  case (Ev_fileSelect url)
  then show ?thesis
    using assms
    by (simp add: unbuilt_iff handleFileSelect_def Let_def new_node_def connect_entry_def)
next
  case (Ev_playPause loaded)
  then show ?thesis
    using assms by (simp add: unbuilt_iff handlePlayPause_def)
qed

lemma unbuilt_fold: "unbuilt w \<Longrightarrow> unbuilt (fold perform evs w)"
  by (induction evs arbitrary: w) (simp_all add: unbuilt_perform)

lemma unbuilt_initial: "unbuilt initial_page"
  by (simp add: unbuilt_iff initial_page_def)

lemma graph_intact_mount:
  assumes "unbuilt w"
  shows "graph_intact (length (nodes w)) (mount w)"
  using assms
  by (simp add: graph_intact_def unbuilt_iff mount_def buildGraph_shape built_nodes_def
      nth_append)

lemma graph_intact_applySettings:
  assumes "graph_intact n w"
  shows "graph_intact n (applySettings s w)"
proof -
  have "nodes (applySettings s w) ! (n + 5) = nodes w ! (n + 5)"
    using assms by (intro applySettings_nth_other) (simp add: graph_intact_def)
  then show ?thesis
    using assms by (simp add: graph_intact_def applySettings_refs applySettings_length)
qed

lemma graph_intact_micToggle:
  assumes "graph_intact n w"
  shows "graph_intact n (page_of (handleMicToggle granted w))"
  using assms
  by (auto simp: graph_intact_def handleMicToggle_def Let_def new_node_def connect_entry_def
      connect_def open_mic_def close_mic_def disconnect_def on_ref_def upd_node_def nth_append
      split: option.splits)

lemma graph_intact_fileSelect:
  assumes "graph_intact n w"
  shows "graph_intact n (page_of (handleFileSelect url w))"
proof -
  from assms have "pitchShiftRef w = Some n"
    by (simp add: graph_intact_def)
  from handleFileSelect_shape [OF this, of url] assms show ?thesis
    by (auto simp: graph_intact_def nth_append split: option.splits)
qed

lemma graph_intact_playPause:
  assumes "graph_intact n w"
  shows "graph_intact n (page_of (handlePlayPause loaded w))"
  using assms
  by (auto simp: graph_intact_def handlePlayPause_def start_def stop_def upd_node_def
      split: option.splits)

lemma graph_intact_perform:
  assumes "graph_intact n w"
  shows "graph_intact n (perform ev w)"
proof (cases ev)
  case (Ev_applyPreset pid)
  then show ?thesis
    using assms by (simp add: graph_intact_def applyPreset_def)
next
  case (Ev_setSetting key v)
  then show ?thesis
    using assms by (simp add: graph_intact_def setSetting_def)
next
  case Ev_settingsEffect
  then show ?thesis
    using assms by (simp add: settings_effect_def graph_intact_applySettings)
next
  case (Ev_micToggle granted)
  then show ?thesis
    using assms by (simp add: graph_intact_micToggle)
next
  case (Ev_fileSelect url)
  then show ?thesis
    using assms by (simp add: graph_intact_fileSelect)
next
  case (Ev_playPause loaded)
  then show ?thesis
    using assms by (simp add: graph_intact_playPause)
qed

lemma graph_intact_fold:
  "graph_intact n w \<Longrightarrow> graph_intact n (fold perform evs w)"
  by (induction evs arbitrary: w) (simp_all add: graph_intact_perform)

text \<open>
  Claim C10. \<open>buildGraph\<close> creates the final gain with gain 0.9. On every page where the
  final gain is none of the seven nodes the settings effect writes to, \<open>applySettings\<close>
  leaves the final gain node as it is, for every settings value. And whatever events
  precede the mount effect and whatever events follow it (presets, single-field updates,
  runs of the settings effect, microphone toggles, file selections, play and pause), the
  final gain is still the node it was built as, and stays so under \<open>applySettings\<close> with
  any settings value.
\<close>

theorem final_gain_untouched:
  "finalGainRef (page_of (buildGraph s0 w)) = Some (length (nodes w) + 5)
   \<and> nodes (page_of (buildGraph s0 w)) ! (length (nodes w) + 5) = fresh_node Gain [(K_gain, Num 0.9)]
   \<and> read_opt (finalGainRef (page_of (buildGraph s0 w))) K_gain (page_of (buildGraph s0 w)) = Some (Num 0.9)
   \<and> (\<forall>g. finalGainRef w = Some g
          \<and> Some g \<notin> set [pitchShiftRef w, distortionRef w, delayRef w, reverbRef w, eqRef w,
                            ringModRef w, ringGainRef w]
          \<longrightarrow> nodes (applySettings s w) ! g = nodes w ! g
              \<and> finalGainRef (applySettings s w) = Some g)
   \<and> (let w1 = fold perform evs1 initial_page;
          g = length (nodes w1) + 5;
          w2 = fold perform evs2 (mount w1)
      in finalGainRef w2 = Some g
       \<and> nodes w2 ! g = fresh_node Gain [(K_gain, Num 0.9)]
       \<and> finalGainRef (applySettings s w2) = Some g
       \<and> nodes (applySettings s w2) ! g = fresh_node Gain [(K_gain, Num 0.9)])"
proof -
  have built: "finalGainRef (page_of (buildGraph s0 w)) = Some (length (nodes w) + 5)"
    "nodes (page_of (buildGraph s0 w)) ! (length (nodes w) + 5) = fresh_node Gain [(K_gain, Num 0.9)]"
    "length (nodes (page_of (buildGraph s0 w))) = length (nodes w) + 10"
    by (simp_all add: buildGraph_shape built_nodes_def nth_append)
  then have rd: "read_opt (finalGainRef (page_of (buildGraph s0 w))) K_gain (page_of (buildGraph s0 w)) = Some (Num 0.9)"
    by (simp add: read_opt_def fresh_node_def)
  have frame: "nodes (applySettings s w) ! g = nodes w ! g
      \<and> finalGainRef (applySettings s w) = Some g"
    if "finalGainRef w = Some g"
      and "Some g \<notin> set [pitchShiftRef w, distortionRef w, delayRef w, reverbRef w, eqRef w,
                           ringModRef w, ringGainRef w]" for g
    using that applySettings_nth_other [OF that(2), of s] by (simp add: applySettings_refs)
  let ?w1 = "fold perform evs1 initial_page"
  let ?w2 = "fold perform evs2 (mount ?w1)"
  have "unbuilt ?w1"
    by (rule unbuilt_fold [OF unbuilt_initial])
  then have "graph_intact (length (nodes ?w1)) (mount ?w1)"
    by (rule graph_intact_mount)
  then have i: "graph_intact (length (nodes ?w1)) ?w2"
    by (rule graph_intact_fold)
  then have j: "graph_intact (length (nodes ?w1)) (applySettings s ?w2)"
    by (rule graph_intact_applySettings)
  from i j have reach: "finalGainRef ?w2 = Some (length (nodes ?w1) + 5)
       \<and> nodes ?w2 ! (length (nodes ?w1) + 5) = fresh_node Gain [(K_gain, Num 0.9)]
       \<and> finalGainRef (applySettings s ?w2) = Some (length (nodes ?w1) + 5)
       \<and> nodes (applySettings s ?w2) ! (length (nodes ?w1) + 5)
           = fresh_node Gain [(K_gain, Num 0.9)]"
    by (simp add: graph_intact_def)
  from built rd frame reach show ?thesis
    by (simp add: Let_def)
qed

text \<open>On the mounted page the final gain is node 6, apart from the seven nodes written to.\<close>

theorem final_gain_untouched_witness:
  "finalGainRef (mount initial_page) = Some 6
   \<and> Some 6 \<notin> set [pitchShiftRef (mount initial_page), distortionRef (mount initial_page),
                     delayRef (mount initial_page), reverbRef (mount initial_page),
                     eqRef (mount initial_page), ringModRef (mount initial_page),
                     ringGainRef (mount initial_page)]
   \<and> nodes (applySettings (PRESETS robot) (mount initial_page)) ! 6
       = nodes (mount initial_page) ! 6
   \<and> nodes (fold perform
              [Ev_micToggle True, Ev_applyPreset robot, Ev_settingsEffect,
               Ev_setSetting Key_ringModHz 0, Ev_settingsEffect]
              (mount initial_page)) ! 6
       = fresh_node Gain [(K_gain, Num 0.9)]"
proof -
  have n: "length (nodes initial_page) = 1"
    by (simp add: initial_page_def)
  from final_gain_untouched [of "PRESETS clean" "mount initial_page" "PRESETS robot" "[]"
      "[Ev_micToggle True, Ev_applyPreset robot, Ev_settingsEffect,
        Ev_setSetting Key_ringModHz 0, Ev_settingsEffect]"]
  show ?thesis
    by (simp add: mount_refs Let_def n)
qed

section \<open>The name of a saved recording\<close>

text \<open>
  Claim C9, as stated, fails when the recorder's container is not WebM: with
  \<^verbatim>\<open>audio/mp4\<close> the download is still named \<^verbatim>\<open>.webm\<close>, where the container's extension
  is \<^verbatim>\<open>mp4\<close>.
\<close>

theorem onstop_extension_fixed:
  "file_name (onstop ''audio/mp4'' ''2026-11-02T03:17:09.123Z'')
     = ''ultra-voice-2026-11-02T03-17-09-123Z.webm''
   \<and> spec_container_extension ''audio/mp4'' = ''mp4''
   \<and> spec_file_name ''audio/mp4'' ''2026-11-02T03:17:09.123Z''
       = ''ultra-voice-2026-11-02T03-17-09-123Z.mp4''"
  by (simp add: onstop_def replace_colon_dot_def spec_file_name_def spec_container_extension_def)

text \<open>
  Claim C9, amended. Every recording saved on stop is named
  \<^verbatim>\<open>ultra-voice-<ts>.webm\<close> and labelled \<^verbatim>\<open>audio/webm\<close>, whatever container the
  recorder chose: \<^verbatim>\<open><ts>\<close> is the ISO timestamp with every colon and dot replaced by a
  hyphen and every other character kept, so it has the timestamp's length and contains
  neither colon nor dot. The name is the one the specification describes exactly when the
  recorder's container is WebM.
\<close>

theorem onstop_file_name:
  "file_name (onstop mime stamp) = ''ultra-voice-'' @ replace_colon_dot stamp @ ''.webm''
   \<and> blob_type (onstop mime stamp) = ''audio/webm''
   \<and> length (replace_colon_dot stamp) = length stamp
   \<and> CHR '':'' \<notin> set (replace_colon_dot stamp)
   \<and> CHR ''.'' \<notin> set (replace_colon_dot stamp)
   \<and> (\<forall>i < length stamp.
         replace_colon_dot stamp ! i
           = (if stamp ! i = CHR '':'' \<or> stamp ! i = CHR ''.'' then CHR ''-'' else stamp ! i))
   \<and> (file_name (onstop mime stamp) = spec_file_name mime stamp
        \<longleftrightarrow> spec_container_extension mime = ''webm'')"
  by (auto simp: onstop_def replace_colon_dot_def spec_file_name_def)

text \<open>A WebM recording with a codec parameter, stopped at a given instant.\<close>

theorem onstop_file_name_witness:
  "spec_container_extension ''audio/webm;codecs=opus'' = ''webm''
   \<and> file_name (onstop ''audio/webm;codecs=opus'' ''2026-11-02T03:17:09.123Z'')
       = ''ultra-voice-2026-11-02T03-17-09-123Z.webm''
   \<and> 13 < length ''2026-11-02T03:17:09.123Z''
   \<and> replace_colon_dot ''2026-11-02T03:17:09.123Z'' ! 13 = CHR ''-''"
  using onstop_file_name [of "''audio/webm;codecs=opus''" "''2026-11-02T03:17:09.123Z''"]
  by (simp add: spec_container_extension_def replace_colon_dot_def)

end
